theory Spec2Isabelle
  imports Complex_Main
begin

section \<open>Python values used by the controller\<close>

text \<open>
  The exceptions the modelled code can raise: the \<^verbatim>\<open>assert\<close> statements raise
  \<open>AssertionError\<close>, \<^verbatim>\<open>4*cmd\<close> on \<^verbatim>\<open>None\<close> raises \<open>TypeError\<close>, reading
  an attribute that was never assigned raises \<open>AttributeError\<close>.
\<close>

datatype error = AssertionError | TypeError | AttributeError

text \<open>
  The argument of \<^verbatim>\<open>generate_signal\<close> is dynamically typed; the function only
  distinguishes a \<^verbatim>\<open>str\<close> from everything else.
\<close>

datatype pyval = Str string | NonStr

text \<open>\<^verbatim>\<open>int(x)\<close> on a float truncates toward zero.\<close>

definition py_int :: "real \<Rightarrow> int" where
  "py_int x = (if 0 \<le> x then \<lfloor>x\<rfloor> else \<lceil>x\<rceil>)"

text \<open>\<^verbatim>\<open>n * xs\<close> on a list: \<open>n\<close> copies of \<open>xs\<close>, none when \<open>n \<le> 0\<close>.\<close>

definition py_repeat :: "int \<Rightarrow> 'a list \<Rightarrow> 'a list" where
  "py_repeat n xs = concat (replicate (nat n) xs)"

text \<open>\<^verbatim>\<open>"c" in command\<close> for a one-character string \<open>c\<close>.\<close>

definition contains :: "char \<Rightarrow> string \<Rightarrow> bool" where
  "contains c command = (c \<in> set command)"

section \<open>Double-precision numbers\<close>

text \<open>
  A Python \<^verbatim>\<open>float\<close> is an IEEE 754 double: a multiple of a power of two by an
  integer of at most 53 bits. \<open>to_double x\<close> is the double nearest to the real \<open>x\<close>,
  ties going to the even multiple, which is how a literal is read and how the result of
  an arithmetic operation is rounded. \<open>double_exponent x\<close> is the exponent of the
  spacing of the doubles around \<open>x\<close>, with the lower limit of the subnormal numbers.
  Infinities and NaN are not numbers of the model; the product of a double and the
  clock period is smaller than that double and never overflows.
\<close>

definition round_half_even :: "real \<Rightarrow> int" where
  "round_half_even x =
     (let f = \<lfloor>x\<rfloor>; r = x - of_int f
      in if r < 1 / 2 then f else if 1 / 2 < r then f + 1 else if even f then f else f + 1)"

definition double_exponent :: "real \<Rightarrow> int" where
  "double_exponent x = max (\<lfloor>log 2 \<bar>x\<bar>\<rfloor> - 52) (- 1074)"

definition to_double :: "real \<Rightarrow> real" where
  "to_double x =
     (if x = 0 then 0
      else of_int (round_half_even (x / 2 powi double_exponent x)) * 2 powi double_exponent x)"

text \<open>\<^verbatim>\<open>x * y\<close> on two floats: the exact product, rounded to a double.\<close>

definition float_mul :: "real \<Rightarrow> real \<Rightarrow> real" where
  "float_mul x y = to_double (x * y)"

text \<open>The double next below 130000, \<^verbatim>\<open>129999.99999999999\<close>, as a sample rate for examples.\<close>

definition below_130000 :: real where
  "below_130000 = 130000 - 1 / 2 ^ 36"

section \<open>RCControllerSignalGenerator\<close>

text \<open>
  The generator is constructed with its sample rate, a float, which is the first
  argument of every definition below. The clock period is the double that the literal
  \<^verbatim>\<open>0.0005\<close> denotes, and the number of samples in a bit period is the truncation of
  the double product of the two. The samples are the numbers \<open>0\<close> and \<open>0.95\<close>.
\<close>

definition clock_period :: real where
  "clock_period = to_double (5 / 10000)"

definition low :: "real \<Rightarrow> real list" where
  "low sample_rate = py_repeat (py_int (float_mul sample_rate clock_period)) [0]"

definition high :: "real \<Rightarrow> real list" where
  "high sample_rate = py_repeat (py_int (float_mul sample_rate clock_period)) [95 / 100]"

definition long :: "real \<Rightarrow> real list" where
  "long sample_rate = py_repeat 3 (high sample_rate) @ low sample_rate"

definition short :: "real \<Rightarrow> real list" where
  "short sample_rate = high sample_rate @ low sample_rate"

definition cmd_forward :: "real \<Rightarrow> real list" where
  "cmd_forward sample_rate = py_repeat 4 (long sample_rate) @ py_repeat 40 (short sample_rate)"

definition cmd_forward_right :: "real \<Rightarrow> real list" where
  "cmd_forward_right sample_rate = py_repeat 4 (long sample_rate) @ py_repeat 46 (short sample_rate)"

definition cmd_forward_left :: "real \<Rightarrow> real list" where
  "cmd_forward_left sample_rate = py_repeat 4 (long sample_rate) @ py_repeat 52 (short sample_rate)"

definition cmd_reverse :: "real \<Rightarrow> real list" where
  "cmd_reverse sample_rate = py_repeat 4 (long sample_rate) @ py_repeat 10 (short sample_rate)"

definition cmd_reverse_right :: "real \<Rightarrow> real list" where
  "cmd_reverse_right sample_rate = py_repeat 4 (long sample_rate) @ py_repeat 34 (short sample_rate)"

definition cmd_reverse_left :: "real \<Rightarrow> real list" where
  "cmd_reverse_left sample_rate = py_repeat 4 (long sample_rate) @ py_repeat 28 (short sample_rate)"

definition cmd_left :: "real \<Rightarrow> real list" where
  "cmd_left sample_rate = py_repeat 4 (long sample_rate) @ py_repeat 58 (short sample_rate)"

definition cmd_right :: "real \<Rightarrow> real list" where
  "cmd_right sample_rate = py_repeat 4 (long sample_rate) @ py_repeat 64 (short sample_rate)"

definition cmd_stop :: "real \<Rightarrow> real list" where
  "cmd_stop sample_rate =
     py_repeat 15 (py_repeat 4 (long sample_rate) @ py_repeat 4 (short sample_rate))"

definition cmd_off :: "real \<Rightarrow> real list" where
  "cmd_off sample_rate = py_repeat 10 (low sample_rate)"

text \<open>
  \<^verbatim>\<open>generate_signal\<close>: the assertion on the argument's type, then the chain of
  substring tests in the source's order. Falling off the end of the function returns
  \<^verbatim>\<open>None\<close>, which is \<open>Inr None\<close> here.
\<close>

definition generate_signal :: "real \<Rightarrow> pyval \<Rightarrow> error + real list option" where
  "generate_signal sample_rate arg =
     (case arg of
        NonStr \<Rightarrow> Inl AssertionError
      | Str command \<Rightarrow>
          if contains CHR ''n'' command \<or> contains CHR ''N'' command then
            (if contains CHR ''e'' command \<or> contains CHR ''E'' command
               then Inr (Some (cmd_forward_right sample_rate))
             else if contains CHR ''w'' command \<or> contains CHR ''W'' command
               then Inr (Some (cmd_forward_left sample_rate))
             else Inr (Some (cmd_forward sample_rate)))
          else if contains CHR ''s'' command \<or> contains CHR ''S'' command then
            (if contains CHR ''e'' command \<or> contains CHR ''E'' command
               then Inr (Some (cmd_reverse_right sample_rate))
             else if contains CHR ''w'' command \<or> contains CHR ''W'' command
               then Inr (Some (cmd_reverse_left sample_rate))
             else Inr (Some (cmd_reverse sample_rate)))
          else if contains CHR ''e'' command \<or> contains CHR ''E'' command
            then Inr (Some (cmd_right sample_rate))
          else if contains CHR ''w'' command \<or> contains CHR ''W'' command
            then Inr (Some (cmd_left sample_rate))
          else if contains CHR ''x'' command \<or> contains CHR ''X'' command
            then Inr (Some (cmd_stop sample_rate))
          else if contains CHR ''o'' command \<or> contains CHR ''O'' command
            then Inr (Some (cmd_off sample_rate))
          else Inr None)"

section \<open>RCController\<close>

subsection \<open>Class constants\<close>

definition radio_center_frequency :: real where
  "radio_center_frequency = 25000000"

definition rc_control_frequency :: real where
  "rc_control_frequency = 27000000"

text \<open>The controller's \<^verbatim>\<open>_sample_rate\<close>, with which it constructs its generator.\<close>

definition controller_sample_rate :: real where
  "controller_sample_rate = 8000000"

definition after_delay_ms :: nat where
  "after_delay_ms = 15"

definition key_map :: "string \<rightharpoonup> string" where
  "key_map = map_of
     [(''w'', ''n''), (''x'', ''s''), (''d'', ''e''), (''a'', ''w''),
      (''q'', ''nw''), (''e'', ''ne''), (''z'', ''sw''), (''c'', ''se'')]"

subsection \<open>Modulation\<close>

text \<open>
  \<^verbatim>\<open>_modulate_signal\<close>: the time axis \<^verbatim>\<open>arange(len(signal)) * 1/sample_rate\<close> and
  the element-wise product with the complex exponential. The arithmetic is that of the
  real and complex numbers; the rounding of doubles and of the final conversion to
  single precision (\<^verbatim>\<open>astype(np.complex64)\<close>) is not part of the model.
\<close>

definition modulate_signal :: "real list \<Rightarrow> complex list" where
  "modulate_signal signal =
     (let frequency_offset = rc_control_frequency - radio_center_frequency;
          t = map (\<lambda>k. real k * 1 / controller_sample_rate) [0..<length signal];
          mod_signal =
            map2 (\<lambda>x t. complex_of_real x *
                    exp (\<i> * 2 * complex_of_real pi * complex_of_real frequency_offset *
                         complex_of_real t))
              signal t
      in mod_signal)"

subsection \<open>Writing a buffer to the radio\<close>

text \<open>
  The radio's \<^verbatim>\<open>writeStream\<close> is an external primitive: given the device's state, the
  buffer and the number of samples offered, it returns \<^verbatim>\<open>sr.ret\<close> and the device's
  new state.
\<close>

type_synonym 'd write_stream = "'d \<Rightarrow> complex list \<Rightarrow> int \<Rightarrow> int \<times> 'd"

text \<open>
  The loop of \<^verbatim>\<open>_transmit_command\<close>. It may run forever (when the primitive returns
  more than the samples that remain, \<^verbatim>\<open>numSampsTotal\<close> becomes negative and never
  returns to 0), so it is a partial function: \<open>None\<close> is not returning. The failed
  assertion is \<open>Inl AssertionError\<close>; the \<^verbatim>\<open>print\<close> before it only writes to the
  terminal. \<^verbatim>\<open>buffer[sr.ret:]\<close> is reached with \<^verbatim>\<open>sr.ret > 0\<close> only.
\<close>

partial_function (option) transmit_loop ::
  "'d write_stream \<Rightarrow> int \<Rightarrow> complex list \<Rightarrow> 'd \<Rightarrow> ((error + unit) \<times> 'd) option" where
  "transmit_loop writeStream numSampsTotal buffer dev =
     (if numSampsTotal \<noteq> 0 then
        (let size = min (int (length buffer)) numSampsTotal in
         case writeStream dev buffer size of
           (ret, dev') \<Rightarrow>
             if \<not> (ret > 0) then Some (Inl AssertionError, dev')
             else transmit_loop writeStream (numSampsTotal - ret) (drop (nat ret) buffer) dev')
      else Some (Inr (), dev))"

definition transmit_command ::
  "'d write_stream \<Rightarrow> complex list \<Rightarrow> 'd \<Rightarrow> ((error + unit) \<times> 'd) option" where
  "transmit_command writeStream buffer dev =
     transmit_loop writeStream (int (length buffer)) buffer dev"

subsection \<open>The controller's state and the event loop's timers\<close>

text \<open>
  The attributes the handlers read and write. \<^verbatim>\<open>_job\<close> and \<^verbatim>\<open>_current_command\<close>
  are assigned in \<^verbatim>\<open>start\<close> only, so they are optional: reading one that is \<open>None\<close>
  raises \<open>AttributeError\<close>. \<open>timers\<close> is the event loop's queue of pending
  \<^verbatim>\<open>after\<close> callbacks, as pairs of identifier and delay; every callback the controller
  registers is \<^verbatim>\<open>_transmit_current_command\<close>. \<open>next_timer\<close> is the identifier the
  next \<^verbatim>\<open>after\<close> call returns.
\<close>

record 'd controller =
  job :: "nat option"
  current_command :: "complex list option"
  stop_command :: "complex list"
  timers :: "(nat \<times> nat) list"
  next_timer :: nat
  device :: 'd

definition after :: "nat \<Rightarrow> 'd controller \<Rightarrow> nat \<times> 'd controller" where
  "after ms s =
     (next_timer s,
      s\<lparr>timers := timers s @ [(next_timer s, ms)], next_timer := Suc (next_timer s)\<rparr>)"

definition after_cancel :: "nat \<Rightarrow> 'd controller \<Rightarrow> 'd controller" where
  "after_cancel j s = s\<lparr>timers := filter (\<lambda>(i, ms). i \<noteq> j) (timers s)\<rparr>"

subsection \<open>Construction and start\<close>

text \<open>
  \<^verbatim>\<open>__init__\<close>, as far as the controller's own state goes: the STOP buffer is the
  modulated frame of \<^verbatim>\<open>generate_signal("x")\<close>. The configuration of the radio and
  of the window is left to the device and the event loop.
\<close>

definition init :: "'d \<Rightarrow> error + 'd controller" where
  "init dev =
     (case generate_signal controller_sample_rate (Str ''x'') of
        Inl e \<Rightarrow> Inl e
      | Inr None \<Rightarrow> Inl TypeError
      | Inr (Some cmd) \<Rightarrow>
          Inr \<lparr>job = None, current_command = None,
               stop_command = modulate_signal cmd,
               timers = [], next_timer = 0, device = dev\<rparr>)"

text \<open>Handlers return what they raise, if anything, and the state they leave.\<close>

definition set_current_command ::
  "pyval \<Rightarrow> 'd controller \<Rightarrow> (error + unit) \<times> 'd controller" where
  "set_current_command direction s =
     (case generate_signal controller_sample_rate direction of
        Inl e \<Rightarrow> (Inl e, s)
      | Inr None \<Rightarrow> (Inl TypeError, s)
      | Inr (Some cmd) \<Rightarrow>
          (Inr (), s\<lparr>current_command := Some (modulate_signal (py_repeat 4 cmd))\<rparr>))"

text \<open>\<^verbatim>\<open>start\<close>, up to the call of \<^verbatim>\<open>mainloop\<close>.\<close>

definition start :: "'d controller \<Rightarrow> (error + unit) \<times> 'd controller" where
  "start s =
     (case set_current_command (Str ''o'') s of
        (Inl e, s1) \<Rightarrow> (Inl e, s1)
      | (Inr _, s1) \<Rightarrow>
          (case after after_delay_ms s1 of (j, s2) \<Rightarrow> (Inr (), s2\<lparr>job := Some j\<rparr>)))"

text \<open>
  The program's entry point, \<^verbatim>\<open>rc = RCController(); rc.start()\<close>, up to the call of
  \<^verbatim>\<open>mainloop\<close>: the state in which the event loop starts to deliver events.
\<close>

definition session_start :: "'d \<Rightarrow> error + 'd controller" where
  "session_start dev =
     (case init dev of
        Inl e \<Rightarrow> Inl e
      | Inr s \<Rightarrow> (case start s of (Inl e, s') \<Rightarrow> Inl e | (Inr _, s') \<Rightarrow> Inr s'))"

subsection \<open>Handlers\<close>

definition button_press_handler ::
  "pyval \<Rightarrow> 'd controller \<Rightarrow> (error + unit) \<times> 'd controller" where
  "button_press_handler direction s =
     (case job s of
        None \<Rightarrow> (Inl AttributeError, s)
      | Some j \<Rightarrow>
          (case set_current_command direction (after_cancel j s) of
             (Inl e, s1) \<Rightarrow> (Inl e, s1)
           | (Inr _, s1) \<Rightarrow>
               (case after after_delay_ms s1 of (j', s2) \<Rightarrow> (Inr (), s2\<lparr>job := Some j'\<rparr>))))"

definition key_press_handler ::
  "string \<Rightarrow> 'd controller \<Rightarrow> (error + unit) \<times> 'd controller" where
  "key_press_handler key s =
     (case key_map key of
        None \<Rightarrow> (Inr (), s)
      | Some direction \<Rightarrow>
          (case job s of
             None \<Rightarrow> (Inl AttributeError, s)
           | Some j \<Rightarrow>
               (case set_current_command (Str direction) (after_cancel j s) of
                  (Inl e, s1) \<Rightarrow> (Inl e, s1)
                | (Inr _, s1) \<Rightarrow>
                    (case after after_delay_ms s1 of
                       (j', s2) \<Rightarrow> (Inr (), s2\<lparr>job := Some j'\<rparr>)))))"

definition transmit_stop_command ::
  "'d write_stream \<Rightarrow> 'd controller \<Rightarrow> ((error + unit) \<times> 'd controller) option" where
  "transmit_stop_command writeStream s =
     (case job s of
        None \<Rightarrow> Some (Inl AttributeError, s)
      | Some j \<Rightarrow>
          (let s1 = after_cancel j s in
           case transmit_command writeStream (stop_command s1) (device s1) of
             None \<Rightarrow> None
           | Some (Inl e, dev') \<Rightarrow> Some (Inl e, s1\<lparr>device := dev'\<rparr>)
           | Some (Inr _, dev') \<Rightarrow>
               (case set_current_command (Str ''o'') (s1\<lparr>device := dev'\<rparr>) of
                  (Inl e, s2) \<Rightarrow> Some (Inl e, s2)
                | (Inr _, s2) \<Rightarrow>
                    (case after 2 s2 of (j', s3) \<Rightarrow> Some (Inr (), s3\<lparr>job := Some j'\<rparr>)))))"

text \<open>The release handlers take the released key or button and do not look at it.\<close>

definition key_unpress_handler ::
  "'d write_stream \<Rightarrow> string list \<Rightarrow> 'd controller \<Rightarrow> ((error + unit) \<times> 'd controller) option"
  where
  "key_unpress_handler writeStream args s = transmit_stop_command writeStream s"

definition button_unpress_handler ::
  "'d write_stream \<Rightarrow> pyval \<Rightarrow> 'd controller \<Rightarrow> ((error + unit) \<times> 'd controller) option"
  where
  "button_unpress_handler writeStream direction s = transmit_stop_command writeStream s"

definition transmit_current_command ::
  "'d write_stream \<Rightarrow> 'd controller \<Rightarrow> ((error + unit) \<times> 'd controller) option" where
  "transmit_current_command writeStream s =
     (case current_command s of
        None \<Rightarrow> Some (Inl AttributeError, s)
      | Some buffer \<Rightarrow>
          (case transmit_command writeStream buffer (device s) of
             None \<Rightarrow> None
           | Some (Inl e, dev') \<Rightarrow> Some (Inl e, s\<lparr>device := dev'\<rparr>)
           | Some (Inr _, dev') \<Rightarrow>
               (case after 2 (s\<lparr>device := dev'\<rparr>) of
                  (j', s1) \<Rightarrow> Some (Inr (), s1\<lparr>job := Some j'\<rparr>))))"

text \<open>
  The event loop firing a pending timer: the timer leaves the queue and its callback,
  \<^verbatim>\<open>_transmit_current_command\<close>, runs. A timer that is not pending does not fire.
\<close>

definition fire_timer ::
  "'d write_stream \<Rightarrow> nat \<Rightarrow> 'd controller \<Rightarrow> ((error + unit) \<times> 'd controller) option" where
  "fire_timer writeStream j s =
     (if j \<in> fst ` set (timers s)
      then transmit_current_command writeStream (after_cancel j s)
      else Some (Inr (), s))"

section \<open>A radio that records its calls\<close>

text \<open>
  To observe what a transmission writes, a write primitive is wrapped so that the
  device's state also holds the list of calls made so far, each with the buffer and
  the size it was given and the count it returned.
\<close>

type_synonym call = "complex list \<times> int \<times> int"

definition logged :: "'d write_stream \<Rightarrow> ('d \<times> call list) write_stream" where
  "logged writeStream = (\<lambda>(dev, calls) buffer size.
     case writeStream dev buffer size of
       (ret, dev') \<Rightarrow> (ret, (dev', calls @ [(buffer, size, ret)])))"

text \<open>
  \<open>trace_of buf cs res\<close>: the calls \<open>cs\<close> are those of one transmission of \<open>buf\<close> ending
  with \<open>res\<close>. Each call is given exactly the samples not yet accepted, and their number
  as the size; after a positive count that many samples are dropped and the calls go
  on; a count that is not positive is the last call and the result is the failed
  assertion; with no samples left there is no further call and the result is success.
\<close>

fun trace_of :: "complex list \<Rightarrow> call list \<Rightarrow> error + unit \<Rightarrow> bool" where
  "trace_of buf [] res = (buf = [] \<and> res = Inr ())"
| "trace_of buf ((b, n, r) # cs) res =
     (buf \<noteq> [] \<and> b = buf \<and> n = int (length buf) \<and> r \<le> n \<and>
      (if 0 < r then trace_of (drop (nat r) buf) cs res
       else cs = [] \<and> res = Inl AssertionError))"

text \<open>The counts returned, and the samples accepted, over a list of calls.\<close>

definition returned :: "call list \<Rightarrow> int list" where
  "returned cs = map (\<lambda>(b, n, r). r) cs"

definition accepted :: "call list \<Rightarrow> complex list" where
  "accepted cs = concat (map (\<lambda>(b, n, r). take (nat r) b) cs)"

text \<open>
  A write primitive for examples: it accepts one sample of those offered in each call,
  and nothing when nothing is offered.
\<close>

definition accept_one :: "'d write_stream" where
  "accept_one = (\<lambda>dev buffer size. (min size 1, dev))"

text \<open>A write primitive that refuses every call: it returns 0 whatever it is offered.\<close>

definition refuse_all :: "'d write_stream" where
  "refuse_all = (\<lambda>dev buffer size. (0, dev))"

section \<open>Shapes and lengths of the generated frames\<close>

text \<open>The number of samples in one bit period, as the generator computes it.\<close>

definition samples_per_bit :: "real \<Rightarrow> nat" where
  "samples_per_bit sample_rate = nat (py_int (float_mul sample_rate clock_period))"

text \<open>
  The frame of a directional command in the specification's words: four long bit-shapes
  (three bit periods of \<open>0.95\<close>, one of \<open>0\<close>), then \<open>count\<close> short bit-shapes (one bit
  period of \<open>0.95\<close>, one of \<open>0\<close>), for \<open>N\<close> samples in a bit period.
\<close>

definition spec_long :: "nat \<Rightarrow> real list" where
  "spec_long N = replicate (3 * N) (95 / 100) @ replicate N 0"

definition spec_short :: "nat \<Rightarrow> real list" where
  "spec_short N = replicate N (95 / 100) @ replicate N 0"

definition spec_direction_frame :: "nat \<Rightarrow> nat \<Rightarrow> real list" where
  "spec_direction_frame N count =
     concat (replicate 4 (spec_long N)) @ concat (replicate count (spec_short N))"

definition spec_stop_frame :: "nat \<Rightarrow> real list" where
  "spec_stop_frame N =
     concat (replicate 15 (concat (replicate 4 (spec_long N)) @ concat (replicate 4 (spec_short N))))"

lemma double_exponent_eq:
  assumes "2 powi k \<le> \<bar>x\<bar>" "\<bar>x\<bar> < 2 powi (k + 1)" "- 1022 \<le> k"
  shows "double_exponent x = k - 52"
proof -
  have "(0::real) < 2 powi k" by simp
  with assms(1) have pos: "0 < \<bar>x\<bar>" by linarith
  have "2 powr (real_of_int k + 1) = 2 powr real_of_int (k + 1)" by simp
  then have "\<lfloor>log 2 \<bar>x\<bar>\<rfloor> = k"
    using assms(1,2) pos
    by (simp add: floor_log_eq_powr_iff powr_real_of_int' del: of_int_add)
  with assms(3) show ?thesis by (simp add: double_exponent_def)
qed

lemma to_double_eq:
  assumes "2 powi k \<le> \<bar>x\<bar>" "\<bar>x\<bar> < 2 powi (k + 1)" "- 1022 \<le> k"
  shows "to_double x = of_int (round_half_even (x / 2 powi (k - 52))) * 2 powi (k - 52)"
proof -
  have "(0::real) < 2 powi k" by simp
  with assms(1) have "0 < \<bar>x\<bar>" by linarith
  then have "x \<noteq> 0" by simp
  then show ?thesis by (simp add: to_double_def double_exponent_eq[OF assms])
qed

text \<open>The double of the literal \<^verbatim>\<open>0.0005\<close>, which is a little more than 1/2000.\<close>

lemma clock_period_eq: "clock_period = 1152921504606847 / 2 ^ 61"
  unfolding clock_period_def
  by (subst to_double_eq[of "-11"]) (simp_all add: round_half_even_def Let_def power_int_minus)

lemma float_mul_8M: "float_mul 8000000 clock_period = 4000"
  unfolding float_mul_def clock_period_eq
  by (subst to_double_eq[of 11]) (simp_all add: round_half_even_def Let_def power_int_minus)

lemma float_mul_3600: "float_mul 3600 clock_period = 8106479329266893 / 2 ^ 52"
  unfolding float_mul_def clock_period_eq
  by (subst to_double_eq[of 0]) (simp_all add: round_half_even_def Let_def power_int_minus)

text \<open>
  At the double next below 130000 the exact quotient by 2000 is below 65, and the
  double product with the clock period is 65.
\<close>

lemma float_mul_below_130000: "float_mul below_130000 clock_period = 65"
  unfolding float_mul_def clock_period_eq below_130000_def
  by (subst to_double_eq[of 6]) (simp_all add: round_half_even_def Let_def power_int_minus)

lemma exact_product_below_130000: "\<lfloor>below_130000 / 2000\<rfloor> = 64"
  by (simp add: below_130000_def floor_eq_iff)

lemma concat_replicate_single: "concat (replicate k [x]) = replicate k x"
  by (induction k) simp_all

lemma py_repeat_single: "py_repeat n [x] = replicate (nat n) x"
  by (simp add: py_repeat_def concat_replicate_single)

lemma length_py_repeat: "length (py_repeat n xs) = nat n * length xs"
  by (simp add: py_repeat_def length_concat sum_list_replicate)

lemma low_eq: "low sr = replicate (samples_per_bit sr) 0"
  by (simp add: low_def samples_per_bit_def py_repeat_single)

lemma high_eq: "high sr = replicate (samples_per_bit sr) (95 / 100)"
  by (simp add: high_def samples_per_bit_def py_repeat_single)

lemma long_eq: "long sr = spec_long (samples_per_bit sr)"
proof -
  have "py_repeat 3 (high sr) = replicate (3 * samples_per_bit sr) (95 / 100)"
    by (simp add: high_eq py_repeat_def numeral_3_eq_3 replicate_add[symmetric])
  then show ?thesis
    by (simp add: long_def spec_long_def low_eq)
qed

lemma short_eq: "short sr = spec_short (samples_per_bit sr)"
  by (simp add: short_def spec_short_def high_eq low_eq)

lemma length_spec_long: "length (spec_long N) = 4 * N"
  by (simp add: spec_long_def)

lemma length_spec_short: "length (spec_short N) = 2 * N"
  by (simp add: spec_short_def)

lemma length_spec_direction_frame:
  "length (spec_direction_frame N count) = 4 * (4 * N) + count * (2 * N)"
  by (simp add: spec_direction_frame_def length_concat sum_list_replicate
      length_spec_long length_spec_short)

lemma length_spec_stop_frame:
  "length (spec_stop_frame N) = 15 * (4 * (4 * N) + 4 * (2 * N))"
  by (simp add: spec_stop_frame_def length_concat sum_list_replicate
      length_spec_long length_spec_short)

lemma direction_frame_eq:
  "0 \<le> c \<Longrightarrow> py_repeat 4 (long sr) @ py_repeat c (short sr) =
     spec_direction_frame (samples_per_bit sr) (nat c)"
  by (simp add: py_repeat_def spec_direction_frame_def long_eq short_eq)

lemma cmd_frames:
  "cmd_forward sr = spec_direction_frame (samples_per_bit sr) 40"
  "cmd_forward_right sr = spec_direction_frame (samples_per_bit sr) 46"
  "cmd_forward_left sr = spec_direction_frame (samples_per_bit sr) 52"
  "cmd_reverse sr = spec_direction_frame (samples_per_bit sr) 10"
  "cmd_reverse_right sr = spec_direction_frame (samples_per_bit sr) 34"
  "cmd_reverse_left sr = spec_direction_frame (samples_per_bit sr) 28"
  "cmd_left sr = spec_direction_frame (samples_per_bit sr) 58"
  "cmd_right sr = spec_direction_frame (samples_per_bit sr) 64"
  by (simp_all add: cmd_forward_def cmd_forward_right_def cmd_forward_left_def
      cmd_reverse_def cmd_reverse_right_def cmd_reverse_left_def cmd_left_def
      cmd_right_def direction_frame_eq)

lemma cmd_stop_eq: "cmd_stop sr = spec_stop_frame (samples_per_bit sr)"
  by (simp add: cmd_stop_def spec_stop_frame_def py_repeat_def long_eq short_eq)

lemma cmd_off_eq: "cmd_off sr = replicate (10 * samples_per_bit sr) 0"
proof -
  have "concat (replicate k (replicate n x)) = replicate (k * n) x" for k n and x :: real
    by (induction k) (simp_all add: replicate_add)
  then show ?thesis
    by (simp add: cmd_off_def py_repeat_def low_eq)
qed

lemma samples_per_bit_8M: "samples_per_bit 8000000 = 4000"
  by (simp add: samples_per_bit_def float_mul_8M py_int_def)

lemma samples_per_bit_floor: "samples_per_bit sr = nat \<lfloor>float_mul sr clock_period\<rfloor>"
  by (simp add: samples_per_bit_def py_int_def)

lemma samples_per_bit_3600: "samples_per_bit 3600 = 1"
  by (simp add: samples_per_bit_floor float_mul_3600 floor_eq_iff)

lemma samples_per_bit_below_130000: "samples_per_bit below_130000 = 65"
  by (simp add: samples_per_bit_floor float_mul_below_130000)

lemma generate_signal_tokens:
  "generate_signal sr (Str ''N'') = Inr (Some (cmd_forward sr))"
  "generate_signal sr (Str ''NE'') = Inr (Some (cmd_forward_right sr))"
  "generate_signal sr (Str ''NW'') = Inr (Some (cmd_forward_left sr))"
  "generate_signal sr (Str ''S'') = Inr (Some (cmd_reverse sr))"
  "generate_signal sr (Str ''SE'') = Inr (Some (cmd_reverse_right sr))"
  "generate_signal sr (Str ''SW'') = Inr (Some (cmd_reverse_left sr))"
  "generate_signal sr (Str ''W'') = Inr (Some (cmd_left sr))"
  "generate_signal sr (Str ''E'') = Inr (Some (cmd_right sr))"
  "generate_signal sr (Str ''n'') = Inr (Some (cmd_forward sr))"
  "generate_signal sr (Str ''ne'') = Inr (Some (cmd_forward_right sr))"
  "generate_signal sr (Str ''nw'') = Inr (Some (cmd_forward_left sr))"
  "generate_signal sr (Str ''s'') = Inr (Some (cmd_reverse sr))"
  "generate_signal sr (Str ''se'') = Inr (Some (cmd_reverse_right sr))"
  "generate_signal sr (Str ''sw'') = Inr (Some (cmd_reverse_left sr))"
  "generate_signal sr (Str ''w'') = Inr (Some (cmd_left sr))"
  "generate_signal sr (Str ''e'') = Inr (Some (cmd_right sr))"
  "generate_signal sr (Str ''x'') = Inr (Some (cmd_stop sr))"
  "generate_signal sr (Str ''o'') = Inr (Some (cmd_off sr))"
  by (simp_all add: generate_signal_def contains_def)

section \<open>Modulation keeps length and magnitude\<close>

lemma length_modulate_signal: "length (modulate_signal x) = length x"
  by (simp add: modulate_signal_def Let_def)

lemma nth_modulate_signal:
  assumes "k < length x"
  shows "modulate_signal x ! k = complex_of_real (x ! k) *
     exp (\<i> * complex_of_real (2 * pi * (rc_control_frequency - radio_center_frequency)
                                 * (real k / controller_sample_rate)))"
  using assms by (simp add: modulate_signal_def Let_def mult.assoc)

lemma py_repeat_4: "py_repeat 4 w = w @ w @ w @ w"
  by (simp add: py_repeat_def numeral_eq_Suc)

section \<open>The write loop against a recording radio\<close>

text \<open>
  The loop invariant: \<open>numSampsTotal\<close> is the length of the remaining buffer. It holds
  as long as the primitive never returns more than it was offered; the induction is on
  the length of what remains.
\<close>

lemma transmit_loop_logged:
  assumes bounded: "\<And>d b n. 0 < n \<Longrightarrow> fst (wr d b n) \<le> n"
  shows "\<exists>res d' cs. transmit_loop (logged wr) (int (length buf)) buf (d, ps)
            = Some (res, d', ps @ cs) \<and> trace_of buf cs res
            \<and> (res = Inr () \<or> (\<exists>d b n. 0 < n \<and> fst (wr d b n) \<le> 0))"
proof (induction "length buf" arbitrary: buf d ps rule: less_induct)
  case less
  show ?case
  proof (cases "buf = []")
    case True
    then show ?thesis by (simp add: transmit_loop.simps)
  next
    case False
    obtain r d1 where w: "wr d buf (int (length buf)) = (r, d1)"
      by (cases "wr d buf (int (length buf))")
    have rle: "r \<le> int (length buf)"
      using bounded[of "int (length buf)" d buf] w False by simp
    show ?thesis
    proof (cases "0 < r")
      case False
      then have "transmit_loop (logged wr) (int (length buf)) buf (d, ps)
            = Some (Inl AssertionError, d1, ps @ [(buf, int (length buf), r)])"
        using \<open>buf \<noteq> []\<close> w by (subst transmit_loop.simps) (simp add: logged_def)
      moreover have "trace_of buf [(buf, int (length buf), r)] (Inl AssertionError)"
        using False \<open>buf \<noteq> []\<close> rle by simp
      moreover have "\<exists>d b n. 0 < n \<and> fst (wr d b n) \<le> 0"
        using False \<open>buf \<noteq> []\<close> w
        by (intro exI[of _ d] exI[of _ buf] exI[of _ "int (length buf)"]) simp
      ultimately show ?thesis by blast
    next
      case True
      let ?rest = "drop (nat r) buf"
      let ?ps = "ps @ [(buf, int (length buf), r)]"
      have len: "int (length ?rest) = int (length buf) - r" using True rle by simp
      have lt: "length ?rest < length buf" using True \<open>buf \<noteq> []\<close> by simp
      from less[OF lt, of d1 ?ps]
      obtain res d' cs where
        run: "transmit_loop (logged wr) (int (length ?rest)) ?rest (d1, ?ps)
               = Some (res, d', ?ps @ cs)"
        and tr: "trace_of ?rest cs res"
        and pos: "res = Inr () \<or> (\<exists>d b n. 0 < n \<and> fst (wr d b n) \<le> 0)"
        by blast
      have "transmit_loop (logged wr) (int (length buf)) buf (d, ps)
            = Some (res, d', ps @ ((buf, int (length buf), r) # cs))"
        using \<open>buf \<noteq> []\<close> w True run len
        by (subst transmit_loop.simps) (simp add: logged_def)
      moreover have "trace_of buf ((buf, int (length buf), r) # cs) res"
        using True \<open>buf \<noteq> []\<close> rle tr by simp
      ultimately show ?thesis using pos by blast
    qed
  qed
qed

lemma trace_of_success:
  "trace_of buf cs (Inr ()) \<Longrightarrow>
     sum_list (returned cs) = int (length buf) \<and> accepted cs = buf
     \<and> list_all (\<lambda>r. 0 < r) (returned cs)"
proof (induction cs arbitrary: buf)
  case Nil
  then show ?case by (simp add: returned_def accepted_def)
next
  case (Cons c cs)
  obtain b n r where c: "c = (b, n, r)" by (cases c)
  from Cons.prems c have r: "0 < r" "r \<le> int (length buf)" "b = buf"
    and tr: "trace_of (drop (nat r) buf) cs (Inr ())"
    by (auto split: if_splits)
  from Cons.IH[OF tr] r c show ?case
    by (simp add: returned_def accepted_def)
qed

lemma trace_of_failure:
  "trace_of buf cs (Inl e) \<Longrightarrow> e = AssertionError \<and> cs \<noteq> [] \<and> last (returned cs) \<le> 0"
proof (induction cs arbitrary: buf)
  case Nil
  then show ?case by simp
next
  case (Cons c cs)
  obtain b n r where c: "c = (b, n, r)" by (cases c)
  show ?case
  proof (cases "0 < r")
    case True
    with Cons.prems c have tr: "trace_of (drop (nat r) buf) cs (Inl e)" by simp
    from Cons.IH[OF tr] show ?thesis by (simp add: returned_def)
  next
    case False
    with Cons.prems c show ?thesis by (simp add: returned_def)
  qed
qed

lemma transmit_command_logged_ok:
  assumes bounded: "\<forall>d b n. 0 < n \<longrightarrow> fst (wr d b n) \<le> n"
      and positive: "\<forall>d b n. 0 < n \<longrightarrow> 0 < fst (wr d b n)"
  shows "\<exists>d' cs. transmit_command (logged wr) buf (d, ps) = Some (Inr (), d', ps @ cs)
           \<and> trace_of buf cs (Inr ()) \<and> accepted cs = buf"
proof -
  have "\<exists>res d' cs. transmit_loop (logged wr) (int (length buf)) buf (d, ps)
            = Some (res, d', ps @ cs) \<and> trace_of buf cs res
            \<and> (res = Inr () \<or> (\<exists>d b n. 0 < n \<and> fst (wr d b n) \<le> 0))"
    by (rule transmit_loop_logged) (simp add: bounded)
  then obtain res d' cs where
    run: "transmit_loop (logged wr) (int (length buf)) buf (d, ps) = Some (res, d', ps @ cs)"
    and tr: "trace_of buf cs res"
    and pos: "res = Inr () \<or> (\<exists>d b n. 0 < n \<and> fst (wr d b n) \<le> 0)"
    by blast
  from pos positive have res: "res = Inr ()" by (auto simp: not_le[symmetric])
  with tr trace_of_success[of buf cs] have "accepted cs = buf" by simp
  with run tr res show ?thesis by (auto simp: transmit_command_def)
qed

lemma accept_one_bounded: "\<forall>d b n. 0 < n \<longrightarrow> fst (accept_one d b n) \<le> n"
  by (simp add: accept_one_def)

lemma accept_one_positive: "\<forall>d b n. 0 < n \<longrightarrow> 0 < fst (accept_one d b n)"
  by (simp add: accept_one_def)

text \<open>
  The loop relies on the primitive's bound. A primitive that reports more samples than
  it was offered makes \<open>numSampsTotal\<close> negative, and the loop never returns.
\<close>

lemma transmit_loop_over_accepting:
  assumes "transmit_loop wr numSampsTotal buffer dev = Some y"
  shows "wr = (\<lambda>d b n. (5, d)) \<longrightarrow> numSampsTotal < 0 \<longrightarrow> False"
proof (rule transmit_loop.raw_induct[where
      P = "\<lambda>wr n buf d y. wr = (\<lambda>d b n. (5, d)) \<longrightarrow> n < 0 \<longrightarrow> False", OF _ assms])
  fix loop :: "'a write_stream \<Rightarrow> int \<Rightarrow> complex list \<Rightarrow> 'a \<Rightarrow> ((error + unit) \<times> 'a) option"
    and wr :: "'a write_stream" and n buf d y
  assume IH: "\<And>w m b d y. loop w m b d = Some y \<Longrightarrow> w = (\<lambda>d b n. (5, d)) \<longrightarrow> m < 0 \<longrightarrow> False"
    and eq: "(if n \<noteq> 0
      then let size = min (int (length buf)) n
           in case wr d buf size of
              (ret, dev') \<Rightarrow>
                if \<not> 0 < ret then Some (Inl AssertionError, dev')
                else loop wr (n - ret) (drop (nat ret) buf) dev'
      else Some (Inr (), d)) = Some y"
  show "wr = (\<lambda>d b n. (5, d)) \<longrightarrow> n < 0 \<longrightarrow> False"
  proof (intro impI)
    assume w: "wr = (\<lambda>d b n. (5, d))" and n: "n < 0"
    from eq w n have "loop wr (n - 5) (drop 5 buf) d = Some y"
      by simp
    from IH[OF this] w n show False by simp
  qed
qed

lemma transmit_loop_negative_diverges:
  "numSampsTotal < 0 \<Longrightarrow> transmit_loop (\<lambda>d b n. (5, d)) numSampsTotal buffer dev = None"
  using transmit_loop_over_accepting[of "\<lambda>d b n. (5, d)" numSampsTotal buffer dev]
  by (cases "transmit_loop (\<lambda>d b n. (5, d)) numSampsTotal buffer dev") auto

lemma transmit_command_over_accepting:
  "transmit_command (\<lambda>d b n. (5, d)) [1, 2, 3] (0::nat) = None"
  by (simp add: transmit_command_def transmit_loop.simps[of _ 3]
      transmit_loop_negative_diverges[of "-2"])

section \<open>The controller's steps\<close>

lemma generate_signal_off:
  "generate_signal controller_sample_rate (Str ''o'')
     = Inr (Some (cmd_off controller_sample_rate))"
  by (simp add: generate_signal_tokens)

lemma set_current_command_ok:
  "generate_signal controller_sample_rate direction = Inr (Some w) \<Longrightarrow>
   set_current_command direction s
     = (Inr (), s\<lparr>current_command := Some (modulate_signal (py_repeat 4 w))\<rparr>)"
  by (simp add: set_current_command_def)

lemma init_ok:
  "init dev = Inr \<lparr>job = None, current_command = None,
                   stop_command = modulate_signal (cmd_stop controller_sample_rate),
                   timers = [], next_timer = 0, device = dev\<rparr>"
  by (simp add: init_def generate_signal_tokens)

lemma session_start_eq:
  "session_start dev = Inr \<lparr>job = Some 0,
       current_command = Some (modulate_signal (py_repeat 4 (cmd_off controller_sample_rate))),
       stop_command = modulate_signal (cmd_stop controller_sample_rate),
       timers = [(0, after_delay_ms)], next_timer = Suc 0, device = dev\<rparr>"
  by (simp add: session_start_def init_ok start_def set_current_command_def
      generate_signal_off after_def)

lemma length_tiled_right:
  "length (modulate_signal (py_repeat 4 (cmd_right controller_sample_rate))) = 2304000"
  by (simp add: length_modulate_signal length_py_repeat cmd_frames
      length_spec_direction_frame controller_sample_rate_def samples_per_bit_8M)

lemma length_tiled_forward_right:
  "length (modulate_signal (py_repeat 4 (cmd_forward_right controller_sample_rate))) = 1728000"
  by (simp add: length_modulate_signal length_py_repeat cmd_frames
      length_spec_direction_frame controller_sample_rate_def samples_per_bit_8M)

lemma stop_buffer_nonempty: "modulate_signal (cmd_stop controller_sample_rate) \<noteq> []"
proof -
  have "length (modulate_signal (cmd_stop controller_sample_rate)) = 1440000"
    by (simp add: length_modulate_signal cmd_stop_eq length_spec_stop_frame
        controller_sample_rate_def samples_per_bit_8M)
  then show ?thesis by auto
qed

lemma transmit_command_refused:
  "buf \<noteq> [] \<Longrightarrow>
   transmit_command (logged refuse_all) buf (d, ps)
     = Some (Inl AssertionError, d, ps @ [(buf, int (length buf), 0)])"
  by (simp add: transmit_command_def transmit_loop.simps logged_def refuse_all_def)

lemma dvd_length_frames:
  "N dvd length (spec_direction_frame N c)"
  "N dvd length (spec_stop_frame N)"
  by (simp_all add: length_spec_direction_frame length_spec_stop_frame)

section \<open>Claims about the encoder\<close>

text \<open>
  C1. For each of the direction tokens N, S, E, W, NE, NW, SE, SW (as the buttons send
  them, and in lower case as the key map sends them) \<open>generate_signal\<close> returns four
  long bit-shapes followed by the command's count of short bit-shapes: forward 40,
  forward-right 46, forward-left 52, reverse 10, reverse-right 34, reverse-left 28,
  left 58, right 64. Such a frame has \<open>4 * (4 * N) + count * (2 * N)\<close> samples, where
  \<open>N\<close> is the number of samples in a bit period; at a sample rate of 8,000,000 that
  number is 4000 and the forward frame has 384,000 samples.
\<close>

theorem generate_signal_direction_frames:
  "generate_signal sr (Str ''N'') = Inr (Some (spec_direction_frame (samples_per_bit sr) 40))
   \<and> generate_signal sr (Str ''NE'') = Inr (Some (spec_direction_frame (samples_per_bit sr) 46))
   \<and> generate_signal sr (Str ''NW'') = Inr (Some (spec_direction_frame (samples_per_bit sr) 52))
   \<and> generate_signal sr (Str ''S'') = Inr (Some (spec_direction_frame (samples_per_bit sr) 10))
   \<and> generate_signal sr (Str ''SE'') = Inr (Some (spec_direction_frame (samples_per_bit sr) 34))
   \<and> generate_signal sr (Str ''SW'') = Inr (Some (spec_direction_frame (samples_per_bit sr) 28))
   \<and> generate_signal sr (Str ''W'') = Inr (Some (spec_direction_frame (samples_per_bit sr) 58))
   \<and> generate_signal sr (Str ''E'') = Inr (Some (spec_direction_frame (samples_per_bit sr) 64))
   \<and> generate_signal sr (Str ''n'') = Inr (Some (spec_direction_frame (samples_per_bit sr) 40))
   \<and> generate_signal sr (Str ''ne'') = Inr (Some (spec_direction_frame (samples_per_bit sr) 46))
   \<and> generate_signal sr (Str ''nw'') = Inr (Some (spec_direction_frame (samples_per_bit sr) 52))
   \<and> generate_signal sr (Str ''s'') = Inr (Some (spec_direction_frame (samples_per_bit sr) 10))
   \<and> generate_signal sr (Str ''se'') = Inr (Some (spec_direction_frame (samples_per_bit sr) 34))
   \<and> generate_signal sr (Str ''sw'') = Inr (Some (spec_direction_frame (samples_per_bit sr) 28))
   \<and> generate_signal sr (Str ''w'') = Inr (Some (spec_direction_frame (samples_per_bit sr) 58))
   \<and> generate_signal sr (Str ''e'') = Inr (Some (spec_direction_frame (samples_per_bit sr) 64))
   \<and> length (low sr) = samples_per_bit sr
   \<and> length (high sr) = samples_per_bit sr
   \<and> length (spec_direction_frame N count) = 4 * (4 * N) + count * (2 * N)
   \<and> samples_per_bit 8000000 = 4000
   \<and> generate_signal 8000000 (Str ''N'') = Inr (Some (cmd_forward 8000000))
   \<and> length (cmd_forward 8000000) = 384000"
proof -
  have "length (cmd_forward 8000000) = 384000"
    by (simp add: cmd_frames length_spec_direction_frame samples_per_bit_8M)
  moreover have "length (low sr) = samples_per_bit sr" "length (high sr) = samples_per_bit sr"
    by (simp_all add: low_eq high_eq)
  ultimately show ?thesis
    by (simp only: generate_signal_tokens cmd_frames length_spec_direction_frame
        samples_per_bit_8M simp_thms)
qed

text \<open>
  C2. For the STOP token \<open>x\<close> the generator returns 15 repetitions of four long and four
  short bit-shapes, \<open>15 * (4 * (4 * N) + 4 * (2 * N))\<close> samples; for the IDLE token \<open>o\<close>
  it returns \<open>10 * N\<close> samples, every one of them \<open>0\<close>.
\<close>

theorem generate_signal_stop_and_idle:
  "generate_signal sr (Str ''x'') = Inr (Some (spec_stop_frame (samples_per_bit sr)))
   \<and> length (spec_stop_frame (samples_per_bit sr))
       = 15 * (4 * (4 * samples_per_bit sr) + 4 * (2 * samples_per_bit sr))
   \<and> generate_signal sr (Str ''o'') = Inr (Some (replicate (10 * samples_per_bit sr) 0))
   \<and> length (replicate (10 * samples_per_bit sr) (0::real)) = 10 * samples_per_bit sr
   \<and> length (low sr) = samples_per_bit sr"
  by (simp only: generate_signal_tokens cmd_stop_eq cmd_off_eq length_spec_stop_frame
      length_replicate low_eq simp_thms)

text \<open>
  C8. Diagonal composition does not depend on the order or the case of the letters: for
  every token that contains an \<open>n\<close> or \<open>N\<close> and an \<open>e\<close> or \<open>E\<close>, whatever else it
  contains, \<open>generate_signal\<close> returns the forward-right frame, with 46 short pulses.
\<close>

theorem generate_signal_north_east:
  assumes "CHR ''n'' \<in> set command \<or> CHR ''N'' \<in> set command"
      and "CHR ''e'' \<in> set command \<or> CHR ''E'' \<in> set command"
  shows "generate_signal sr (Str command) = Inr (Some (cmd_forward_right sr))
         \<and> cmd_forward_right sr = spec_direction_frame (samples_per_bit sr) 46"
  using assms by (simp add: generate_signal_def contains_def cmd_frames)

text \<open>The token \<open>xEsn\<close>: letters in reverse order, mixed case, with other letters around.\<close>

theorem generate_signal_north_east_witness:
  "generate_signal 8000000 (Str ''xEsn'') = Inr (Some (spec_direction_frame 4000 46))"
  using generate_signal_north_east[of "''xEsn''" 8000000]
  by (simp add: samples_per_bit_8M)

text \<open>
  C6, as the specification states it, asks for an \<open>InvalidCommand\<close> error on a token
  with none of the recognised letters. The generator raises nothing on the token \<open>q\<close>:
  it returns \<^verbatim>\<open>None\<close>.
\<close>

theorem generate_signal_unrecognized_no_error:
  "generate_signal 8000000 (Str ''q'') = Inr None
   \<and> \<not> isl (generate_signal 8000000 (Str ''q''))"
  by (simp add: generate_signal_def contains_def)

text \<open>
  C6, amended. For every token that contains none of the letters n, s, e, w, x, o in
  either case, \<open>generate_signal\<close> raises no error and returns the absent value
  \<^verbatim>\<open>None\<close>.
\<close>

theorem generate_signal_unrecognized:
  "set command \<inter> set ''nNsSeEwWxXoO'' = {} \<Longrightarrow> generate_signal sr (Str command) = Inr None"
  by (simp add: generate_signal_def contains_def)

theorem generate_signal_unrecognized_witness:
  "set ''up'' \<inter> set ''nNsSeEwWxXoO'' = {} \<and> generate_signal 8000000 (Str ''up'') = Inr None"
  using generate_signal_unrecognized[of "''up''" 8000000] by simp

text \<open>
  C7, as the specification states it, has the number of samples in a bit period equal to
  the rounded product of sample rate and clock period. At a sample rate of 3600 the
  product is the double next to 1.8, which rounds to 2, and the generator's bit period
  has 1 sample.
\<close>

theorem samples_per_bit_not_rounded:
  "length (low 3600) = 1 \<and> length (high 3600) = 1
   \<and> round (float_mul 3600 clock_period) = 2"
  by (simp add: low_eq high_eq samples_per_bit_3600 float_mul_3600 round_def floor_eq_iff)

text \<open>
  C7, amended. For every sample rate, the number of samples in a bit period is
  \<^verbatim>\<open>int(sample_rate * clock_period)\<close>: the double-precision product of the sample rate
  and the clock period \<^verbatim>\<open>0.0005\<close> (0.5 ms), truncated to an integer and not rounded
  (its floor; no samples when the product is negative). The length of every waveform
  the generator returns is a multiple of that number.
\<close>

theorem samples_per_bit_truncated:
  assumes "generate_signal sr (Str command) = Inr (Some w)"
  shows "clock_period = to_double (5 / 10000)
         \<and> length (low sr) = nat \<lfloor>float_mul sr clock_period\<rfloor>
         \<and> length (high sr) = nat \<lfloor>float_mul sr clock_period\<rfloor>
         \<and> nat \<lfloor>float_mul sr clock_period\<rfloor> dvd length w"
proof -
  have "samples_per_bit sr dvd length w"
    using assms
    by (auto simp add: generate_signal_def cmd_frames cmd_stop_eq cmd_off_eq
        dvd_length_frames split: if_splits)
  then have "nat \<lfloor>float_mul sr clock_period\<rfloor> dvd length w"
    by (simp only: samples_per_bit_floor)
  moreover have "length (low sr) = nat \<lfloor>float_mul sr clock_period\<rfloor>"
    "length (high sr) = nat \<lfloor>float_mul sr clock_period\<rfloor>"
    by (simp_all add: low_eq high_eq samples_per_bit_floor)
  ultimately show ?thesis
    by (simp add: clock_period_def)
qed

text \<open>
  The idle frame at the double next below 130000, where the exact quotient by 2000 has
  floor 64 and the double product is 65: 65 samples in a bit period, 650 in the frame.
\<close>

theorem samples_per_bit_truncated_witness:
  "generate_signal below_130000 (Str ''o'') = Inr (Some (cmd_off below_130000))
   \<and> float_mul below_130000 clock_period = 65
   \<and> \<lfloor>below_130000 / 2000\<rfloor> = 64
   \<and> length (low below_130000) = 65
   \<and> length (high below_130000) = 65
   \<and> length (cmd_off below_130000) = 650
   \<and> (65::nat) dvd length (cmd_off below_130000)"
  using samples_per_bit_truncated[of below_130000 "''o''" "cmd_off below_130000"]
  by (simp add: generate_signal_tokens float_mul_below_130000 cmd_off_eq
      samples_per_bit_below_130000 exact_product_below_130000)

section \<open>Claims about the modulator\<close>

text \<open>
  C3. For every baseband sequence \<open>x\<close>, \<open>modulate_signal\<close> returns as many samples as
  \<open>x\<close> has; its \<open>k\<close>-th sample is \<open>x ! k\<close> times \<open>e\<close> to the power
  \<open>i * 2 * pi * f_offset * k / sample_rate\<close>, with \<open>f_offset\<close> the control frequency less
  the radio's centre frequency; and the magnitude of the \<open>k\<close>-th sample is that of
  \<open>x ! k\<close>. Stated for the exact real and complex arithmetic of the model.
\<close>

theorem modulate_signal_length_and_magnitude:
  "length (modulate_signal x) = length x \<and>
   (\<forall>k<length x.
      modulate_signal x ! k = complex_of_real (x ! k) *
        exp (\<i> * complex_of_real (2 * pi * (rc_control_frequency - radio_center_frequency)
                                    * (real k / controller_sample_rate)))
      \<and> cmod (modulate_signal x ! k) = \<bar>x ! k\<bar>)"
proof (intro conjI allI impI)
  show "length (modulate_signal x) = length x"
    by (rule length_modulate_signal)
next
  fix k assume k: "k < length x"
  show eq: "modulate_signal x ! k = complex_of_real (x ! k) *
        exp (\<i> * complex_of_real (2 * pi * (rc_control_frequency - radio_center_frequency)
                                    * (real k / controller_sample_rate)))"
    by (rule nth_modulate_signal[OF k])
  show "cmod (modulate_signal x ! k) = \<bar>x ! k\<bar>"
    unfolding eq norm_mult norm_of_real by simp
qed

theorem modulate_signal_length_and_magnitude_witness:
  "length (modulate_signal [95 / 100, 0]) = 2
   \<and> cmod (modulate_signal [95 / 100, 0] ! 0) = 95 / 100
   \<and> cmod (modulate_signal [95 / 100, 0] ! 1) = 0"
  using modulate_signal_length_and_magnitude[of "[95 / 100, 0]"] by simp

section \<open>Claims about the write loop\<close>

text \<open>
  C4. Against a write primitive that never returns more than the number of samples it
  was offered, \<open>transmit_command\<close> over a buffer of length \<open>L\<close> always returns. Every
  call is given exactly the samples not yet accepted, so the next call starts at the
  first sample that was not accepted (\<open>trace_of\<close>). Either it succeeds, and then the
  returned counts add up to \<open>L\<close> and the accepted samples are the buffer; or a call
  returned a count that is not positive, that call is the last one, and the result is
  the failed assertion. When every count returned is positive, it succeeds.
\<close>

theorem transmit_command_writes_whole_buffer:
  assumes bounded: "\<forall>d b n. 0 < n \<longrightarrow> fst (wr d b n) \<le> n"
  shows "\<exists>res d' cs.
           transmit_command (logged wr) buffer (d, []) = Some (res, d', cs)
           \<and> trace_of buffer cs res
           \<and> (res = Inr () \<and> sum_list (returned cs) = int (length buffer)
                \<and> accepted cs = buffer
               \<or> res = Inl AssertionError \<and> cs \<noteq> [] \<and> last (returned cs) \<le> 0)
           \<and> ((\<forall>d b n. 0 < n \<longrightarrow> 0 < fst (wr d b n)) \<longrightarrow> res = Inr ())"
proof -
  have "\<exists>res d' cs. transmit_loop (logged wr) (int (length buffer)) buffer (d, [])
            = Some (res, d', [] @ cs) \<and> trace_of buffer cs res
            \<and> (res = Inr () \<or> (\<exists>d b n. 0 < n \<and> fst (wr d b n) \<le> 0))"
    by (rule transmit_loop_logged) (simp add: bounded)
  then obtain res d' cs where
    run: "transmit_command (logged wr) buffer (d, []) = Some (res, d', cs)"
    and tr: "trace_of buffer cs res"
    and pos: "res = Inr () \<or> (\<exists>d b n. 0 < n \<and> fst (wr d b n) \<le> 0)"
    unfolding transmit_command_def by force
  have "res = Inr () \<and> sum_list (returned cs) = int (length buffer) \<and> accepted cs = buffer
         \<or> res = Inl AssertionError \<and> cs \<noteq> [] \<and> last (returned cs) \<le> 0"
  proof (cases res)
    case (Inl e)
    with tr trace_of_failure[of buffer cs e] show ?thesis by simp
  next
    case (Inr u)
    with tr trace_of_success[of buffer cs] show ?thesis by simp
  qed
  moreover have "(\<forall>d b n. 0 < n \<longrightarrow> 0 < fst (wr d b n)) \<longrightarrow> res = Inr ()"
    using pos by (auto simp: not_le[symmetric])
  ultimately show ?thesis using run tr by blast
qed

text \<open>A buffer of three samples against the primitive that accepts one sample a call.\<close>

theorem transmit_command_writes_whole_buffer_witness:
  "\<exists>d' cs. transmit_command (logged accept_one) [1, 2, 3] ((), []) = Some (Inr (), d', cs)
        \<and> trace_of [1, 2, 3] cs (Inr ()) \<and> sum_list (returned cs) = 3
        \<and> accepted cs = [1, 2, 3]"
  using transmit_command_writes_whole_buffer[OF accept_one_bounded, of "[1, 2, 3]" "()"]
    accept_one_positive[where ?'a = unit]
  by auto

section \<open>Claims about the controller\<close>

text \<open>
  C9. \<open>set_current_command\<close> stores the modulation of the generated frame tiled four
  times, so the buffer of a command is four times as long as its frame; the STOP buffer
  built at construction is the modulation of the single frame of \<open>x\<close> and has that
  frame's length.
\<close>

theorem current_command_tiled_stop_command_single:
  "(generate_signal controller_sample_rate direction = Inr (Some w) \<longrightarrow>
      (\<exists>s'. set_current_command direction s = (Inr (), s')
         \<and> current_command s' = Some (modulate_signal (w @ w @ w @ w))
         \<and> length (modulate_signal (w @ w @ w @ w)) = 4 * length w))
   \<and> (\<exists>s0. init dev = Inr s0
         \<and> generate_signal controller_sample_rate (Str ''x'')
             = Inr (Some (cmd_stop controller_sample_rate))
         \<and> stop_command s0 = modulate_signal (cmd_stop controller_sample_rate)
         \<and> length (stop_command s0) = length (cmd_stop controller_sample_rate))"
  by (simp add: set_current_command_ok init_ok py_repeat_4 length_modulate_signal
      generate_signal_tokens)

theorem current_command_tiled_stop_command_single_witness:
  "\<exists>s'. set_current_command (Str ''NE'') (projr (session_start ())) = (Inr (), s')
         \<and> current_command s' = Some (modulate_signal
              (cmd_forward_right controller_sample_rate @ cmd_forward_right controller_sample_rate
               @ cmd_forward_right controller_sample_rate @ cmd_forward_right controller_sample_rate))
         \<and> length (modulate_signal
              (cmd_forward_right controller_sample_rate @ cmd_forward_right controller_sample_rate
               @ cmd_forward_right controller_sample_rate @ cmd_forward_right controller_sample_rate))
            = 4 * length (cmd_forward_right controller_sample_rate)"
  using current_command_tiled_stop_command_single[of "Str ''NE''"
      "cmd_forward_right controller_sample_rate" "projr (session_start ())" "()"]
  by (simp add: generate_signal_tokens)

text \<open>
  C5, as the specification states it, has the job that is pending after press(N) and
  press(E) transmit the forward-right frame. From the state in which the event loop
  starts, the two presses succeed and leave as current command the modulation of the
  right frame tiled four times, 2,304,000 samples; the forward-right buffer has
  1,728,000.
\<close>

theorem press_N_then_E_not_forward_right:
  "fst (button_press_handler (Str ''E'')
          (snd (button_press_handler (Str ''N'') (projr (session_start ()))))) = Inr ()
   \<and> current_command (snd (button_press_handler (Str ''E'')
          (snd (button_press_handler (Str ''N'') (projr (session_start ()))))))
       = Some (modulate_signal (py_repeat 4 (cmd_right controller_sample_rate)))
   \<and> length (modulate_signal (py_repeat 4 (cmd_right controller_sample_rate))) = 2304000
   \<and> length (modulate_signal (py_repeat 4 (cmd_forward_right controller_sample_rate))) = 1728000
   \<and> current_command (snd (button_press_handler (Str ''E'')
          (snd (button_press_handler (Str ''N'') (projr (session_start ()))))))
       \<noteq> Some (modulate_signal (py_repeat 4 (cmd_forward_right controller_sample_rate)))"
proof -
  have ne: "modulate_signal (py_repeat 4 (cmd_right controller_sample_rate))
       \<noteq> modulate_signal (py_repeat 4 (cmd_forward_right controller_sample_rate))"
  proof
    assume "modulate_signal (py_repeat 4 (cmd_right controller_sample_rate))
       = modulate_signal (py_repeat 4 (cmd_forward_right controller_sample_rate))"
    then have "length (modulate_signal (py_repeat 4 (cmd_right controller_sample_rate)))
       = length (modulate_signal (py_repeat 4 (cmd_forward_right controller_sample_rate)))"
      by (rule arg_cong)
    then show False
      by (simp only: length_tiled_right length_tiled_forward_right)
  qed
  show ?thesis
    using length_tiled_right length_tiled_forward_right ne
    by (simp add: session_start_eq button_press_handler_def after_cancel_def
        set_current_command_def generate_signal_tokens after_def)
qed

text \<open>
  C5, amended. If press(N) and then press(E) are issued with no timer firing in
  between, from a state with one pending job that is the controller's \<open>job\<close>, then
  exactly one job is pending afterwards, the one installed by the second press (each
  press cancels the controller's job before it installs a new one), and the current
  command is the modulation of the right frame, 64 short pulses, tiled four times: a
  press replaces the command by that of the direction pressed, and presses are not
  combined into a diagonal. When that job fires against a radio that accepts a positive
  number of the samples offered in each call, the samples the radio accepts are that
  buffer.
\<close>

theorem press_N_then_E_transmits_right:
  fixes s :: "('d \<times> call list) controller"
  assumes job: "job s = Some j" and one: "map fst (timers s) = [j]"
  shows "\<exists>s1 s2. button_press_handler (Str ''N'') s = (Inr (), s1)
           \<and> button_press_handler (Str ''E'') s1 = (Inr (), s2)
           \<and> timers s2 = [(Suc (next_timer s), after_delay_ms)]
           \<and> job s2 = Some (Suc (next_timer s))
           \<and> current_command s2
               = Some (modulate_signal (py_repeat 4 (cmd_right controller_sample_rate)))
           \<and> cmd_right controller_sample_rate = spec_direction_frame 4000 64
           \<and> ((\<forall>d b n. 0 < n \<longrightarrow> fst (wr d b n) \<le> n)
                \<and> (\<forall>d b n. 0 < n \<longrightarrow> 0 < fst (wr d b n)) \<longrightarrow>
               (\<exists>s3 cs. fire_timer (logged wr) (Suc (next_timer s)) s2 = Some (Inr (), s3)
                  \<and> snd (device s3) = snd (device s) @ cs
                  \<and> accepted cs
                      = modulate_signal (py_repeat 4 (cmd_right controller_sample_rate))))"
proof -
  have f: "filter (\<lambda>(i, ms). i \<noteq> j) (timers s) = []"
    using one by (auto simp: filter_empty_conv)
  let ?s1 = "s\<lparr>timers := [(next_timer s, after_delay_ms)],
                current_command :=
                  Some (modulate_signal (py_repeat 4 (cmd_forward controller_sample_rate))),
                next_timer := Suc (next_timer s),
                job := Some (next_timer s)\<rparr>"
  let ?s2 = "s\<lparr>timers := [(Suc (next_timer s), after_delay_ms)],
                current_command :=
                  Some (modulate_signal (py_repeat 4 (cmd_right controller_sample_rate))),
                next_timer := Suc (Suc (next_timer s)),
                job := Some (Suc (next_timer s))\<rparr>"
  have p1: "button_press_handler (Str ''N'') s = (Inr (), ?s1)"
    using job f
    by (simp add: button_press_handler_def after_cancel_def set_current_command_def
        generate_signal_tokens after_def)
  have p2: "button_press_handler (Str ''E'') ?s1 = (Inr (), ?s2)"
    by (simp add: button_press_handler_def after_cancel_def set_current_command_def
        generate_signal_tokens after_def)
  have fr: "cmd_right controller_sample_rate = spec_direction_frame 4000 64"
    by (simp add: cmd_frames controller_sample_rate_def samples_per_bit_8M)
  have tick: "\<exists>s3 cs. fire_timer (logged wr) (Suc (next_timer s)) ?s2 = Some (Inr (), s3)
                  \<and> snd (device s3) = snd (device s) @ cs
                  \<and> accepted cs
                      = modulate_signal (py_repeat 4 (cmd_right controller_sample_rate))"
    if bounded: "\<forall>d b n. 0 < n \<longrightarrow> fst (wr d b n) \<le> n"
      and positive: "\<forall>d b n. 0 < n \<longrightarrow> 0 < fst (wr d b n)"
  proof -
    obtain d ps where dev: "device s = (d, ps)" by (cases "device s")
    from transmit_command_logged_ok[OF bounded positive,
        of "modulate_signal (py_repeat 4 (cmd_right controller_sample_rate))" d ps]
    obtain d' cs where
      run: "transmit_command (logged wr)
              (modulate_signal (py_repeat 4 (cmd_right controller_sample_rate))) (d, ps)
             = Some (Inr (), d', ps @ cs)"
      and acc: "accepted cs
             = modulate_signal (py_repeat 4 (cmd_right controller_sample_rate))"
      by blast
    show ?thesis
      using dev run acc
      by (simp add: fire_timer_def transmit_current_command_def after_cancel_def after_def)
  qed
  show ?thesis
    using p1 p2 fr tick by (intro exI[of _ ?s1] exI[of _ ?s2]) simp
qed

theorem press_N_then_E_transmits_right_witness:
  "\<exists>s1 s2. button_press_handler (Str ''N'') (projr (session_start ((), []))) = (Inr (), s1)
           \<and> button_press_handler (Str ''E'') s1 = (Inr (), s2)
           \<and> timers s2 = [(Suc (Suc 0), 15)]
           \<and> job s2 = Some (Suc (Suc 0))
           \<and> current_command s2
               = Some (modulate_signal (py_repeat 4 (cmd_right controller_sample_rate)))
           \<and> (\<exists>s3 cs. fire_timer (logged accept_one) (Suc (Suc 0)) s2 = Some (Inr (), s3)
                  \<and> snd (device s3) = cs
                  \<and> accepted cs
                      = modulate_signal (py_repeat 4 (cmd_right controller_sample_rate)))"
proof -
  have j: "job (projr (session_start ((), []))) = Some 0"
    and t: "map fst (timers (projr (session_start ((), [])))) = [0]"
    and n: "next_timer (projr (session_start ((), []))) = 1"
    and d: "device (projr (session_start ((), []))) = ((), [])"
    by (simp_all add: session_start_eq)
  from press_N_then_E_transmits_right[OF j t, of accept_one]
    accept_one_bounded[where ?'a = unit] accept_one_positive[where ?'a = unit]
  show ?thesis
    by (simp add: n d after_delay_ms_def) blast
qed

text \<open>
  C10, as stated, has every key release complete the stop sequence. From the state the
  event loop starts in, with a radio that refuses every write, the release handler
  cancels the job and fails the assertion on the first write: it raises
  \<open>AssertionError\<close>, the radio has accepted no sample, and no job is pending.
\<close>

theorem key_unpress_handler_refusing_radio:
  "map_option fst
     (key_unpress_handler (logged refuse_all) [''k''] (projr (session_start ((), []))))
     = Some (Inl AssertionError)
   \<and> map_option (timers \<circ> snd)
     (key_unpress_handler (logged refuse_all) [''k''] (projr (session_start ((), []))))
     = Some []
   \<and> map_option (accepted \<circ> snd \<circ> device \<circ> snd)
     (key_unpress_handler (logged refuse_all) [''k''] (projr (session_start ((), []))))
     = Some []"
proof -
  have "key_unpress_handler (logged refuse_all) [''k''] (projr (session_start ((), [])))
          = Some (Inl AssertionError,
              \<lparr>job = Some 0,
               current_command =
                 Some (modulate_signal (py_repeat 4 (cmd_off controller_sample_rate))),
               stop_command = modulate_signal (cmd_stop controller_sample_rate),
               timers = [], next_timer = Suc 0,
               device = ((), [(modulate_signal (cmd_stop controller_sample_rate),
                               int (length (modulate_signal (cmd_stop controller_sample_rate))),
                               0)])\<rparr>)"
    by (simp add: session_start_eq key_unpress_handler_def transmit_stop_command_def
        after_cancel_def transmit_command_refused[OF stop_buffer_nonempty])
  then show ?thesis
    by (simp add: accepted_def)
qed

text \<open>
  C10, amended. Every key release, whatever key was released, runs the stop sequence
  of \<open>transmit_stop_command\<close>, and the button's release handler does the same. From any
  state in which the controller has a job, and with a radio that never returns more
  than the samples it was offered, the handler returns, the controller's job has left
  the pending timers, and the STOP buffer has been offered to the radio from its first
  sample not yet accepted in each call. If every write returned a positive count, the
  samples accepted since the release are exactly the STOP buffer, the current command
  is the modulation of the idle frame tiled four times, and a new job with a delay of
  2 ms is pending. If a write returned a count that is not positive, the handler raises
  \<open>AssertionError\<close> there: no new job is pending and the current command is as it
  was.
\<close>

theorem key_unpress_handler_stop_sequence:
  fixes s :: "('d \<times> call list) controller"
  assumes bounded: "\<forall>d b n. 0 < n \<longrightarrow> fst (wr d b n) \<le> n"
      and job: "job s = Some j"
  shows "\<exists>res s' cs.
           key_unpress_handler (logged wr) args s = Some (res, s')
           \<and> key_unpress_handler (logged wr) args' s = Some (res, s')
           \<and> button_unpress_handler (logged wr) direction s = Some (res, s')
           \<and> snd (device s') = snd (device s) @ cs
           \<and> trace_of (stop_command s) cs res
           \<and> stop_command s' = stop_command s
           \<and> (res = Inr ()
                \<and> accepted cs = stop_command s
                \<and> timers s' = filter (\<lambda>(i, ms). i \<noteq> j) (timers s) @ [(next_timer s, 2)]
                \<and> job s' = Some (next_timer s)
                \<and> current_command s'
                    = Some (modulate_signal (py_repeat 4 (cmd_off controller_sample_rate)))
               \<or> res = Inl AssertionError
                \<and> cs \<noteq> [] \<and> last (returned cs) \<le> 0
                \<and> timers s' = filter (\<lambda>(i, ms). i \<noteq> j) (timers s)
                \<and> job s' = Some j
                \<and> current_command s' = current_command s)
           \<and> ((\<forall>d b n. 0 < n \<longrightarrow> 0 < fst (wr d b n)) \<longrightarrow> res = Inr ())"
proof -
  obtain d ps where dev: "device s = (d, ps)" by (cases "device s")
  have "\<exists>res d' cs. transmit_loop (logged wr) (int (length (stop_command s)))
            (stop_command s) (d, ps) = Some (res, d', ps @ cs)
          \<and> trace_of (stop_command s) cs res
          \<and> (res = Inr () \<or> (\<exists>d b n. 0 < n \<and> fst (wr d b n) \<le> 0))"
    by (rule transmit_loop_logged) (simp add: bounded)
  then obtain res d' cs where
    run: "transmit_command (logged wr) (stop_command s) (d, ps) = Some (res, d', ps @ cs)"
    and tr: "trace_of (stop_command s) cs res"
    and pos: "res = Inr () \<or> (\<exists>d b n. 0 < n \<and> fst (wr d b n) \<le> 0)"
    unfolding transmit_command_def by blast
  have positive: "(\<forall>d b n. 0 < n \<longrightarrow> 0 < fst (wr d b n)) \<longrightarrow> res = Inr ()"
    using pos by (auto simp: not_le[symmetric])
  show ?thesis
  proof (cases res)
    case (Inr u)
    let ?s' = "s\<lparr>timers := filter (\<lambda>(i, ms). i \<noteq> j) (timers s) @ [(next_timer s, 2)],
                  next_timer := Suc (next_timer s),
                  device := (d', ps @ cs),
                  current_command :=
                    Some (modulate_signal (py_repeat 4 (cmd_off controller_sample_rate))),
                  job := Some (next_timer s)\<rparr>"
    have stop: "transmit_stop_command (logged wr) s = Some (Inr (), ?s')"
      using job dev run Inr
      by (simp add: transmit_stop_command_def after_cancel_def
          set_current_command_def generate_signal_off after_def)
    have acc: "accepted cs = stop_command s"
      using tr Inr trace_of_success[of "stop_command s" cs] by simp
    show ?thesis
      using stop tr acc dev Inr
      by (intro exI[of _ "Inr ()"] exI[of _ ?s'] exI[of _ cs])
         (simp add: key_unpress_handler_def button_unpress_handler_def)
  next
    case (Inl e)
    with tr trace_of_failure[of "stop_command s" cs e]
    have e: "e = AssertionError" and cs: "cs \<noteq> []" "last (returned cs) \<le> 0"
      by simp_all
    let ?s' = "s\<lparr>timers := filter (\<lambda>(i, ms). i \<noteq> j) (timers s),
                  device := (d', ps @ cs)\<rparr>"
    have stop: "transmit_stop_command (logged wr) s = Some (Inl AssertionError, ?s')"
      using job dev run Inl e
      by (simp add: transmit_stop_command_def after_cancel_def)
    have nonpos: "\<exists>d b n. 0 < n \<and> fst (wr d b n) \<le> 0"
      using pos Inl by simp
    have "\<not> (\<forall>d b n. 0 < n \<longrightarrow> 0 < fst (wr d b n))"
      using nonpos by (auto simp: not_less)
    then show ?thesis
      using stop tr cs dev Inl e job
      by (intro exI[of _ "Inl AssertionError"] exI[of _ ?s'] exI[of _ cs])
         (simp add: key_unpress_handler_def button_unpress_handler_def)
  qed
qed

text \<open>The release of a key that is not in the key map, in the state the event loop starts in.\<close>

theorem key_unpress_handler_stop_sequence_witness:
  "\<exists>s' cs. key_unpress_handler (logged accept_one) [''k''] (projr (session_start ((), [])))
              = Some (Inr (), s')
           \<and> timers s' = [(Suc 0, 2)]
           \<and> job s' = Some (Suc 0)
           \<and> snd (device s') = cs
           \<and> accepted cs = modulate_signal (cmd_stop controller_sample_rate)
           \<and> current_command s'
               = Some (modulate_signal (py_repeat 4 (cmd_off controller_sample_rate)))"
proof -
  have j: "job (projr (session_start ((), []))) = Some 0"
    by (simp add: session_start_eq)
  from key_unpress_handler_stop_sequence[OF accept_one_bounded j, of "[''k'']"]
    accept_one_positive[where ?'a = unit]
  show ?thesis
    by (simp add: session_start_eq) blast
qed

end
